theory Spec2Isabelle
  imports Main
begin

section \<open>Data model\<close>

text \<open>
  A table is the list of its rows in insertion order, so that \<open>findOne\<close> (the
  first matching row, or null) is \<open>find\<close>. The columns of \<open>User\<close> are those
  of \<^verbatim>\<open>src/models/User.js\<close>; the five columns declared
  \<^verbatim>\<open>allowNull: false\<close> hold a string in a stored row, \<open>phone\<close> may be null.
\<close>

record user =
  u_userId :: string
  u_firstName :: string
  u_lastName :: string
  u_email :: string
  u_password :: string
  u_phone :: "string option"

text \<open>
  Modelled from the spec: the \<open>Organisation\<close> and \<open>UserOrganisation\<close> models
  are not among the source files. The spec has an organisation with an orgId and a
  name, and a join row that links a userId to an orgId; the tests build rows with
  these fields.
\<close>

record organisation =
  o_orgId :: string
  o_name :: string

record user_organisation =
  m_userId :: string
  m_orgId :: string

record db =
  users :: "user list"
  organisations :: "organisation list"
  userOrganisations :: "user_organisation list"

definition empty_db :: db where
  "empty_db = \<lparr>users = [], organisations = [], userOrganisations = []\<rparr>"

section \<open>Organisation access lookup\<close>

text \<open>
  \<^verbatim>\<open>src/tests/auth.spec.js\<close>, lines 11-19:
  \<^verbatim>\<open>
  const getOrganisationData = async (userId, orgId) => {
    const userOrg = await UserOrganisation.findOne({ where: { userId, orgId } });
    if (!userOrg) {
      throw new Error("User does not have access to this organisation");
    }
    return Organisation.findOne({ where: { orgId } });
  };
  \<close>
  The two ORM queries return the first row that matches every column of the
  \<open>where\<close> object, or null. The thrown error is \<open>Inl\<close> of its message; the
  returned row, or null, is \<open>Inr\<close> of an option.
\<close>

definition UserOrganisation_findOne ::
  "user_organisation list \<Rightarrow> string \<Rightarrow> string \<Rightarrow> user_organisation option" where
  "UserOrganisation_findOne tbl userId orgId =
     find (\<lambda>m. m_userId m = userId \<and> m_orgId m = orgId) tbl"

definition Organisation_findOne :: "organisation list \<Rightarrow> string \<Rightarrow> organisation option" where
  "Organisation_findOne tbl orgId = find (\<lambda>g. o_orgId g = orgId) tbl"

definition access_error :: string where
  "access_error = ''User does not have access to this organisation''"

definition getOrganisationData :: "db \<Rightarrow> string \<Rightarrow> string \<Rightarrow> string + organisation option" where
  "getOrganisationData d userId orgId =
     (case UserOrganisation_findOne (userOrganisations d) userId orgId of
        None \<Rightarrow> Inl access_error
      | Some userOrg \<Rightarrow> Inr (Organisation_findOne (organisations d) orgId))"

definition has_membership :: "db \<Rightarrow> string \<Rightarrow> string \<Rightarrow> bool" where
  "has_membership d userId orgId =
     ((userId, orgId) \<in> set (map (\<lambda>m. (m_userId m, m_orgId m)) (userOrganisations d)))"

text \<open>A small database used to run the lookup: one organisation, and two membership
  rows of which the second points to an organisation that has no row.\<close>

definition example_db :: db where
  "example_db =
     \<lparr>users = [],
      organisations = [\<lparr>o_orgId = ''org123'', o_name = ''Test Org''\<rparr>],
      userOrganisations =
        [\<lparr>m_userId = ''user123'', m_orgId = ''org123''\<rparr>,
         \<lparr>m_userId = ''user123'', m_orgId = ''org999''\<rparr>]\<rparr>"

section \<open>The User model\<close>

text \<open>
  \<^verbatim>\<open>src/models/User.js\<close> declares six attributes, each of type STRING. An
  option the declaration does not give has the ORM's default: \<open>unique\<close> and
  \<open>primaryKey\<close> false, \<open>allowNull\<close> true. The schema is kept as data, and
  \<open>User_create\<close> below reads its checks from it.
\<close>

record column =
  col_name :: string
  col_unique :: bool
  col_allowNull :: bool
  col_primaryKey :: bool

definition User_attributes :: "column list" where
  "User_attributes =
     [\<lparr>col_name = ''userId'', col_unique = True, col_allowNull = False, col_primaryKey = True\<rparr>,
      \<lparr>col_name = ''firstName'', col_unique = False, col_allowNull = False, col_primaryKey = False\<rparr>,
      \<lparr>col_name = ''lastName'', col_unique = False, col_allowNull = False, col_primaryKey = False\<rparr>,
      \<lparr>col_name = ''email'', col_unique = True, col_allowNull = False, col_primaryKey = False\<rparr>,
      \<lparr>col_name = ''password'', col_unique = False, col_allowNull = False, col_primaryKey = False\<rparr>,
      \<lparr>col_name = ''phone'', col_unique = False, col_allowNull = True, col_primaryKey = False\<rparr>]"

text \<open>
  The object handed to \<open>User.create\<close>: any property may be null or undefined
  (\<open>None\<close>). \<open>user_value\<close> reads a property by its column name, and
  \<open>user_column\<close> reads a stored row in the same way.
\<close>

record user_values =
  v_userId :: "string option"
  v_firstName :: "string option"
  v_lastName :: "string option"
  v_email :: "string option"
  v_password :: "string option"
  v_phone :: "string option"

definition user_value :: "user_values \<Rightarrow> string \<Rightarrow> string option" where
  "user_value v c =
     (if c = ''userId'' then v_userId v
      else if c = ''firstName'' then v_firstName v
      else if c = ''lastName'' then v_lastName v
      else if c = ''email'' then v_email v
      else if c = ''password'' then v_password v
      else if c = ''phone'' then v_phone v
      else None)"

definition user_column :: "user \<Rightarrow> string \<Rightarrow> string option" where
  "user_column u c =
     (if c = ''userId'' then Some (u_userId u)
      else if c = ''firstName'' then Some (u_firstName u)
      else if c = ''lastName'' then Some (u_lastName u)
      else if c = ''email'' then Some (u_email u)
      else if c = ''password'' then Some (u_password u)
      else if c = ''phone'' then u_phone u
      else None)"

record error_item =
  e_field :: string
  e_message :: string

datatype orm_error =
  SequelizeValidationError "error_item list"
  | SequelizeUniqueConstraintError "error_item list"

text \<open>
  \<open>User.create\<close> of the ORM, for the schema above. It rejects a null in a column
  declared \<^verbatim>\<open>allowNull: false\<close> (a validation error, one item per column), then a
  value that an existing row already holds in a column declared \<open>unique\<close> or
  \<open>primaryKey\<close> (a unique constraint error), and otherwise appends the row.
\<close>

definition notNull_violations :: "user_values \<Rightarrow> column list" where
  "notNull_violations v =
     filter (\<lambda>c. \<not> col_allowNull c \<and> user_value v (col_name c) = None) User_attributes"

definition unique_violations :: "user list \<Rightarrow> user_values \<Rightarrow> column list" where
  "unique_violations tbl v =
     filter (\<lambda>c. (col_unique c \<or> col_primaryKey c)
                 \<and> user_value v (col_name c) \<noteq> None
                 \<and> user_value v (col_name c) \<in> set (map (\<lambda>u. user_column u (col_name c)) tbl))
       User_attributes"

definition notNull_item :: "column \<Rightarrow> error_item" where
  "notNull_item c = \<lparr>e_field = col_name c, e_message = ''User.'' @ col_name c @ '' cannot be null''\<rparr>"

definition unique_item :: "column \<Rightarrow> error_item" where
  "unique_item c = \<lparr>e_field = col_name c, e_message = col_name c @ '' must be unique''\<rparr>"

definition User_build :: "user_values \<Rightarrow> user option" where
  "User_build v =
     (case (v_userId v, v_firstName v, v_lastName v, v_email v, v_password v) of
        (Some i, Some f, Some l, Some e, Some p) \<Rightarrow>
          Some \<lparr>u_userId = i, u_firstName = f, u_lastName = l, u_email = e, u_password = p,
                u_phone = v_phone v\<rparr>
      | _ \<Rightarrow> None)"

definition User_create :: "user list \<Rightarrow> user_values \<Rightarrow> orm_error + user list" where
  "User_create tbl v =
     (if notNull_violations v \<noteq> [] then
        Inl (SequelizeValidationError (map notNull_item (notNull_violations v)))
      else if unique_violations tbl v \<noteq> [] then
        Inl (SequelizeUniqueConstraintError (map unique_item (unique_violations tbl v)))
      else case User_build v of
        None \<Rightarrow> Inl (SequelizeValidationError [])
      | Some u \<Rightarrow> Inr (tbl @ [u]))"

text \<open>The table that a sequence of \<open>User.create\<close> calls leaves; a call that is
  rejected leaves the table as it was.\<close>

fun User_creates :: "user list \<Rightarrow> user_values list \<Rightarrow> user list" where
  "User_creates tbl [] = tbl"
| "User_creates tbl (v # vs) =
     User_creates (case User_create tbl v of Inl err \<Rightarrow> tbl | Inr tbl' \<Rightarrow> tbl') vs"

definition User_findOne_email :: "user list \<Rightarrow> string \<Rightarrow> user option" where
  "User_findOne_email tbl email = find (\<lambda>u. u_email u = email) tbl"

section \<open>Libraries and environment\<close>

text \<open>
  The password hashing and token signing libraries are parameters of the model: a
  salted hash, the comparison of a password with a stored hash, and the keyed signature
  of a token payload. What a request takes from its environment is an input of the
  handler: the random suffixes that the ID helper draws for the user and for the
  organisation, the salt of the hash, the clock in seconds, and the strings that the ID
  helper has produced before the request.
\<close>

record token_user =
  tu_userId :: string
  tu_email :: string

record payload =
  p_userId :: token_user
  p_exp :: nat

record token =
  tok_payload :: payload
  tok_signature :: string

record lib =
  bcrypt_hash :: "string \<Rightarrow> string \<Rightarrow> string"
  bcrypt_compare :: "string \<Rightarrow> string \<Rightarrow> bool"
  hmac :: "string \<Rightarrow> payload \<Rightarrow> string"

record env =
  env_suffix :: string
  env_orgSuffix :: string
  env_salt :: string
  env_now :: nat
  env_issued :: "string list"

section \<open>Token helper\<close>

datatype jwt_error = JsonWebTokenError | TokenExpiredError

text \<open>
  The JWT library: \<open>sign\<close> with an \<open>expiresIn\<close> option stamps the expiry
  \<open>exp\<close> (in seconds) on the payload and signs it with the secret; \<open>verify\<close>
  rejects a signature that is not the secret's, then a token whose expiry has been
  reached, and returns the payload otherwise; \<open>decode\<close> reads the payload without
  any check.
\<close>

definition jwt_sign :: "lib \<Rightarrow> string \<Rightarrow> nat \<Rightarrow> token_user \<Rightarrow> nat \<Rightarrow> token" where
  "jwt_sign L secret now u expiresIn =
     (let p = \<lparr>p_userId = u, p_exp = now + expiresIn\<rparr>
      in \<lparr>tok_payload = p, tok_signature = hmac L secret p\<rparr>)"

definition jwt_verify :: "lib \<Rightarrow> string \<Rightarrow> nat \<Rightarrow> token \<Rightarrow> jwt_error + payload" where
  "jwt_verify L secret now t =
     (if tok_signature t \<noteq> hmac L secret (tok_payload t) then Inl JsonWebTokenError
      else if p_exp (tok_payload t) \<le> now then Inl TokenExpiredError
      else Inr (tok_payload t))"

definition jwt_decode :: "token \<Rightarrow> payload" where
  "jwt_decode t = tok_payload t"

text \<open>
  Modelled from the spec: \<^verbatim>\<open>utils/jwt\<close> (\<open>generateToken\<close>, \<open>verifyToken\<close>) is not
  among the source files. The spec has a token helper that wraps the JWT library's
  sign and verify calls with a fixed expiry, the payload
  \<^verbatim>\<open>{userId: {userId, email}, exp}\<close> and an expiry of one hour from issuance; the
  test passes \<open>generateToken\<close> an object with the fields userId and email.
\<close>

definition one_hour :: nat where
  "one_hour = 3600"

definition generateToken :: "lib \<Rightarrow> string \<Rightarrow> nat \<Rightarrow> token_user \<Rightarrow> token" where
  "generateToken L secret now u = jwt_sign L secret now u one_hour"

text \<open>
  Modelled from the spec: \<open>verifyToken\<close> of the absent \<^verbatim>\<open>utils/jwt\<close>, the wrapper
  of the library's verify call with the same secret.
\<close>

definition verifyToken :: "lib \<Rightarrow> string \<Rightarrow> nat \<Rightarrow> token \<Rightarrow> jwt_error + payload" where
  "verifyToken L secret now t = jwt_verify L secret now t"

section \<open>ID helper\<close>

text \<open>
  Modelled from the spec: \<^verbatim>\<open>utils/helpers\<close> (\<open>generateUniqueId\<close>) is not among the
  source files. The spec has an ID helper that produces a unique string from a name
  plus a random suffix. The string is the name followed by the suffix, which is an
  input here. It is unique in that it differs from every string the helper has produced
  before: a draw that would repeat one of them is lengthened beyond all of them.
\<close>

definition longest :: "string list \<Rightarrow> nat" where
  "longest xs = foldr (\<lambda>x n. max (length x) n) xs 0"

definition generateUniqueId :: "string list \<Rightarrow> string \<Rightarrow> string \<Rightarrow> string" where
  "generateUniqueId issued name suffix =
     (if name @ suffix \<in> set issued
      then name @ suffix @ replicate (Suc (longest issued) - length (name @ suffix)) CHR ''0''
      else name @ suffix)"

section \<open>Controller\<close>

text \<open>
  Modelled from the spec: the request and response bodies of the absent
  \<^verbatim>\<open>controllers/usersController\<close>. The spec has the register body
  \<^verbatim>\<open>{firstName, lastName, email, password, phone?}\<close>, the login body
  \<^verbatim>\<open>{email, password}\<close>, the success body \<^verbatim>\<open>{data: {user, accessToken}}\<close>
  and the failure body \<^verbatim>\<open>{errors: [...]}\<close> of \<^verbatim>\<open>{field, message}\<close> objects.
  A field that a register body lacks is \<open>None\<close>. The spec does not list the
  fields of the user data; they are the fields of the row except the password.
\<close>

record register_body =
  r_firstName :: "string option"
  r_lastName :: "string option"
  r_email :: "string option"
  r_password :: "string option"
  r_phone :: "string option"

record login_body =
  l_email :: string
  l_password :: string

record user_data =
  d_userId :: string
  d_firstName :: string
  d_lastName :: string
  d_email :: string
  d_phone :: "string option"

datatype json_body =
  Data user_data token
  | Errors "error_item list"
  | Failure

record response =
  res_status :: nat
  res_body :: json_body

text \<open>
  Modelled from the spec: the validation of \<^verbatim>\<open>controllers/usersController\<close>, which is
  not among the source files. The spec has one \<^verbatim>\<open>{field, message}\<close> object for each
  of the required fields firstName, lastName, email, password that is missing; the
  messages are those the tests expect.
\<close>

definition required_error :: "string option \<Rightarrow> string \<Rightarrow> string \<Rightarrow> error_item list" where
  "required_error v fld msg =
     (case v of None \<Rightarrow> [\<lparr>e_field = fld, e_message = msg\<rparr>] | Some x \<Rightarrow> [])"

definition validate :: "register_body \<Rightarrow> error_item list" where
  "validate b =
     required_error (r_firstName b) ''firstName'' ''First name is required''
     @ required_error (r_lastName b) ''lastName'' ''Last name is required''
     @ required_error (r_email b) ''email'' ''Email is required''
     @ required_error (r_password b) ''password'' ''Password is required''"

text \<open>
  Modelled from the spec: the parts of the responses of the absent controller. The
  errors of a failed \<open>User.create\<close> are answered as the ORM reports them; the
  user data is read off the row; the default organisation of a user is named
  \<^verbatim>\<open><firstName>'s Organisation\<close>.
\<close>

definition orm_error_items :: "orm_error \<Rightarrow> error_item list" where
  "orm_error_items e =
     (case e of SequelizeValidationError es \<Rightarrow> es | SequelizeUniqueConstraintError es \<Rightarrow> es)"

definition user_data_of :: "user \<Rightarrow> user_data" where
  "user_data_of u =
     \<lparr>d_userId = u_userId u, d_firstName = u_firstName u, d_lastName = u_lastName u,
      d_email = u_email u, d_phone = u_phone u\<rparr>"

definition default_organisation_name :: "string \<Rightarrow> string" where
  "default_organisation_name firstName = firstName @ CHR 0x27 # ''s Organisation''"

text \<open>
  Modelled from the spec: \<open>registerUser\<close> of the absent
  \<^verbatim>\<open>controllers/usersController\<close>. The spec has: validate the required fields and
  return HTTP 422 with the list of errors; otherwise hash the password, generate the
  userId, create the User, Organisation and UserOrganisation rows, sign a token and
  return HTTP 201 with the user data and the access token; return HTTP 422 when the
  creation of the user fails on a constraint. The organisation is named
  \<^verbatim>\<open><firstName>'s Organisation\<close>. The name handed to the ID helper is
  \<^verbatim>\<open><firstName>-<lastName>\<close>, as in the tests. The spec does not say how the
  orgId is produced: the ID helper produces it here, from the name of the organisation,
  after the userId. A request that is rejected leaves the database as it was.
\<close>

definition registerUser :: "lib \<Rightarrow> string \<Rightarrow> env \<Rightarrow> db \<Rightarrow> register_body \<Rightarrow> response \<times> db" where
  "registerUser L secret E d b =
     (case (r_firstName b, r_lastName b, r_email b, r_password b) of
        (Some firstName, Some lastName, Some email, Some password) \<Rightarrow>
          (let hashedPassword = bcrypt_hash L (env_salt E) password;
               userId = generateUniqueId (env_issued E) (firstName @ ''-'' @ lastName)
                          (env_suffix E);
               orgId = generateUniqueId (userId # env_issued E)
                         (default_organisation_name firstName) (env_orgSuffix E)
           in case User_create (users d)
                     \<lparr>v_userId = Some userId, v_firstName = Some firstName,
                      v_lastName = Some lastName, v_email = Some email,
                      v_password = Some hashedPassword, v_phone = r_phone b\<rparr> of
                Inl err \<Rightarrow>
                  (\<lparr>res_status = 422, res_body = Errors (orm_error_items err)\<rparr>, d)
              | Inr users' \<Rightarrow>
                  (\<lparr>res_status = 201,
                    res_body =
                      Data \<lparr>d_userId = userId, d_firstName = firstName, d_lastName = lastName,
                            d_email = email, d_phone = r_phone b\<rparr>
                           (generateToken L secret (env_now E)
                              \<lparr>tu_userId = userId, tu_email = email\<rparr>)\<rparr>,
                   \<lparr>users = users',
                    organisations = organisations d
                      @ [\<lparr>o_orgId = orgId, o_name = default_organisation_name firstName\<rparr>],
                    userOrganisations = userOrganisations d
                      @ [\<lparr>m_userId = userId, m_orgId = orgId\<rparr>]\<rparr>))
      | _ \<Rightarrow> (\<lparr>res_status = 422, res_body = Errors (validate b)\<rparr>, d))"

text \<open>
  Modelled from the spec: \<open>loginUser\<close> of the absent
  \<^verbatim>\<open>controllers/usersController\<close>. The spec has: look the user up by email, compare
  the password with the stored hash, return HTTP 401 on a missing user or a mismatch,
  and HTTP 200 with the user data and a signed access token otherwise. The body of the
  401 response is not described and is \<open>Failure\<close> here. A login request gives both
  fields.
\<close>

definition loginUser :: "lib \<Rightarrow> string \<Rightarrow> env \<Rightarrow> db \<Rightarrow> login_body \<Rightarrow> response" where
  "loginUser L secret E d b =
     (case User_findOne_email (users d) (l_email b) of
        None \<Rightarrow> \<lparr>res_status = 401, res_body = Failure\<rparr>
      | Some user \<Rightarrow>
          if bcrypt_compare L (l_password b) (u_password user)
          then \<lparr>res_status = 200,
                res_body =
                  Data (user_data_of user)
                       (generateToken L secret (env_now E)
                          \<lparr>tu_userId = u_userId user, tu_email = u_email user\<rparr>)\<rparr>
          else \<lparr>res_status = 401, res_body = Failure\<rparr>)"

section \<open>Router and reachable states\<close>

text \<open>
  \<^verbatim>\<open>src/unnamed/part_000\<close> routes \<^verbatim>\<open>POST /auth/register\<close> to \<open>registerUser\<close>
  and \<^verbatim>\<open>POST /auth/login\<close> to \<open>loginUser\<close>. \<open>run\<close> is the database that
  a sequence of requests leaves, each request with the environment it comes with,
  whatever that environment says of the ID helper.
\<close>

datatype api_call =
  Register env register_body
  | Login env login_body

fun indexRouter :: "lib \<Rightarrow> string \<Rightarrow> db \<Rightarrow> api_call \<Rightarrow> response \<times> db" where
  "indexRouter L secret d (Register E b) = registerUser L secret E d b"
| "indexRouter L secret d (Login E b) = (loginUser L secret E d b, d)"

fun run :: "lib \<Rightarrow> string \<Rightarrow> db \<Rightarrow> api_call list \<Rightarrow> db" where
  "run L secret d [] = d"
| "run L secret d (c # cs) = run L secret (snd (indexRouter L secret d c)) cs"








section \<open>Concrete instances\<close>

text \<open>A toy instance of the libraries and two registration requests, used to run the
  model on concrete inputs.\<close>

definition toy_lib :: lib where
  "toy_lib =
     \<lparr>bcrypt_hash = (\<lambda>salt pw. salt @ pw),
      bcrypt_compare = (\<lambda>pw h. drop 2 h = pw),
      hmac = (\<lambda>secret p. secret @ tu_userId (p_userId p) @ tu_email (p_userId p))\<rparr>"

definition env1 :: env where
  "env1 =
     \<lparr>env_suffix = ''-1a'', env_orgSuffix = ''-o1'', env_salt = ''s1'', env_now = 1000,
      env_issued = []\<rparr>"

definition env2 :: env where
  "env2 =
     \<lparr>env_suffix = ''-2b'', env_orgSuffix = ''-o2'', env_salt = ''s2'', env_now = 2000,
      env_issued = []\<rparr>"

definition john :: register_body where
  "john =
     \<lparr>r_firstName = Some ''John'', r_lastName = Some ''Doe'',
      r_email = Some ''john@example.com'', r_password = Some ''password123'',
      r_phone = Some ''1234567890''\<rparr>"

definition jane :: register_body where
  "jane =
     \<lparr>r_firstName = Some ''Jane'', r_lastName = Some ''Roe'',
      r_email = Some ''jane@example.com'', r_password = Some ''secret'',
      r_phone = None\<rparr>"

definition john_row :: user where
  "john_row =
     \<lparr>u_userId = ''John-Doe-1a'', u_firstName = ''John'', u_lastName = ''Doe'',
      u_email = ''john@example.com'', u_password = ''s1password123'',
      u_phone = Some ''1234567890''\<rparr>"

definition jane_row :: user where
  "jane_row =
     \<lparr>u_userId = ''Jane-Roe-2b'', u_firstName = ''Jane'', u_lastName = ''Roe'',
      u_email = ''jane@example.com'', u_password = ''s2secret'',
      u_phone = None\<rparr>"

definition two_users_db :: db where
  "two_users_db =
     \<lparr>users = [john_row, jane_row],
      organisations =
        [\<lparr>o_orgId = ''John's Organisation-o1'', o_name = ''John's Organisation''\<rparr>,
         \<lparr>o_orgId = ''Jane's Organisation-o2'', o_name = ''Jane's Organisation''\<rparr>],
      userOrganisations =
        [\<lparr>m_userId = ''John-Doe-1a'', m_orgId = ''John's Organisation-o1''\<rparr>,
         \<lparr>m_userId = ''Jane-Roe-2b'', m_orgId = ''Jane's Organisation-o2''\<rparr>]\<rparr>"

section \<open>Auxiliary notions for the invariants\<close>




section \<open>Properties of the organisation access lookup\<close>

lemma UserOrganisation_findOne_None:
  "UserOrganisation_findOne tbl userId orgId = None \<longleftrightarrow>
     (userId, orgId) \<notin> set (map (\<lambda>m. (m_userId m, m_orgId m)) tbl)"
  by (auto simp: UserOrganisation_findOne_def find_None_iff)

text \<open>
  C1. For every pair (userId, orgId), \<open>getOrganisationData\<close> throws the error
  "User does not have access to this organisation" exactly when no UserOrganisation
  row with that userId and orgId exists; when such a row exists it returns the result
  of the Organisation lookup by orgId.
\<close>

theorem getOrganisationData_access:
  "(getOrganisationData d userId orgId = Inl ''User does not have access to this organisation''
      \<longleftrightarrow> \<not> has_membership d userId orgId)
   \<and> (has_membership d userId orgId \<longrightarrow>
        getOrganisationData d userId orgId
          = Inr (Organisation_findOne (organisations d) orgId))"
proof (cases "UserOrganisation_findOne (userOrganisations d) userId orgId")
  case None
  then show ?thesis
    using UserOrganisation_findOne_None [of "userOrganisations d" userId orgId]
    by (simp add: getOrganisationData_def has_membership_def access_error_def)
next
  case (Some userOrg)
  then show ?thesis
    using UserOrganisation_findOne_None [of "userOrganisations d" userId orgId]
    by (simp add: getOrganisationData_def has_membership_def)
qed

theorem getOrganisationData_access_witness:
  "has_membership example_db ''user123'' ''org123''
   \<and> getOrganisationData example_db ''user123'' ''org123''
       = Inr (Some \<lparr>o_orgId = ''org123'', o_name = ''Test Org''\<rparr>)
   \<and> \<not> has_membership example_db ''user456'' ''org123''
   \<and> getOrganisationData example_db ''user456'' ''org123''
       = Inl ''User does not have access to this organisation''"
  using getOrganisationData_access [of example_db "''user123''" "''org123''"]
    getOrganisationData_access [of example_db "''user456''" "''org123''"]
  by (simp add: has_membership_def example_db_def Organisation_findOne_def)

text \<open>
  C9. If a UserOrganisation row exists for (userId, orgId) but no Organisation row has
  that orgId, \<open>getOrganisationData\<close> does not throw: it returns the null result of
  the Organisation lookup.
\<close>

theorem getOrganisationData_missing_organisation:
  assumes "has_membership d userId orgId"
    and "orgId \<notin> set (map o_orgId (organisations d))"
  shows "getOrganisationData d userId orgId = Inr None"
proof -
  from assms(1) have "UserOrganisation_findOne (userOrganisations d) userId orgId \<noteq> None"
    by (simp add: UserOrganisation_findOne_None has_membership_def)
  moreover from assms(2) have "Organisation_findOne (organisations d) orgId = None"
    by (auto simp: Organisation_findOne_def find_None_iff)
  ultimately show ?thesis
    by (auto simp: getOrganisationData_def)
qed

theorem getOrganisationData_missing_organisation_witness:
  "has_membership example_db ''user123'' ''org999''
   \<and> ''org999'' \<notin> set (map o_orgId (organisations example_db))
   \<and> getOrganisationData example_db ''user123'' ''org999'' = Inr None"
proof -
  have h1: "has_membership example_db ''user123'' ''org999''"
    by (simp add: has_membership_def example_db_def)
  have h2: "''org999'' \<notin> set (map o_orgId (organisations example_db))"
    by (simp add: example_db_def)
  show ?thesis
    using h1 h2 getOrganisationData_missing_organisation [OF h1 h2] by simp
qed

section \<open>Properties of the User model\<close>

lemma notNull_violations_full:
  "notNull_violations \<lparr>v_userId = Some i, v_firstName = Some f, v_lastName = Some l,
      v_email = Some e, v_password = Some p, v_phone = ph\<rparr> = []"
  by (simp add: notNull_violations_def User_attributes_def user_value_def)

lemma unique_violations_full:
  "unique_violations tbl \<lparr>v_userId = Some i, v_firstName = Some f, v_lastName = Some l,
      v_email = Some e, v_password = Some p, v_phone = ph\<rparr> = [] \<longleftrightarrow>
    i \<notin> set (map u_userId tbl) \<and> e \<notin> set (map u_email tbl)"
  by (auto simp add: unique_violations_def User_attributes_def user_value_def user_column_def)

lemma User_build_full:
  "User_build \<lparr>v_userId = Some i, v_firstName = Some f, v_lastName = Some l,
      v_email = Some e, v_password = Some p, v_phone = ph\<rparr> =
   Some \<lparr>u_userId = i, u_firstName = f, u_lastName = l, u_email = e, u_password = p, u_phone = ph\<rparr>"
  by (simp add: User_build_def)

lemma User_create_full:
  "User_create tbl \<lparr>v_userId = Some i, v_firstName = Some f, v_lastName = Some l,
      v_email = Some e, v_password = Some p, v_phone = ph\<rparr> =
    (if i \<in> set (map u_userId tbl) \<or> e \<in> set (map u_email tbl)
     then Inl (SequelizeUniqueConstraintError (map unique_item (unique_violations tbl
        \<lparr>v_userId = Some i, v_firstName = Some f, v_lastName = Some l,
         v_email = Some e, v_password = Some p, v_phone = ph\<rparr>)))
     else Inr (tbl @ [\<lparr>u_userId = i, u_firstName = f, u_lastName = l, u_email = e,
                       u_password = p, u_phone = ph\<rparr>]))"
  using unique_violations_full [of tbl i f l e p ph]
  by (simp add: User_create_def notNull_violations_full User_build_full)

lemma notNull_violations_Nil:
  "notNull_violations v = [] \<longleftrightarrow>
     v_userId v \<noteq> None \<and> v_firstName v \<noteq> None \<and> v_lastName v \<noteq> None
     \<and> v_email v \<noteq> None \<and> v_password v \<noteq> None"
  by (simp add: notNull_violations_def User_attributes_def user_value_def)

lemma User_build_Some:
  "User_build v = Some u \<longleftrightarrow>
     v_userId v = Some (u_userId u) \<and> v_firstName v = Some (u_firstName u)
     \<and> v_lastName v = Some (u_lastName u) \<and> v_email v = Some (u_email u)
     \<and> v_password v = Some (u_password u) \<and> v_phone v = u_phone u"
  by (cases u) (auto simp: User_build_def split: option.splits)

lemma User_create_Inr:
  assumes "User_create tbl v = Inr tbl'"
  shows "\<exists>u. tbl' = tbl @ [u] \<and> User_build v = Some u"
  using assms by (auto simp: User_create_def split: if_splits option.splits)

lemma User_create_fresh:
  assumes "User_create tbl v = Inr tbl'"
  shows "\<exists>u. tbl' = tbl @ [u] \<and> u_userId u \<notin> set (map u_userId tbl)
           \<and> u_email u \<notin> set (map u_email tbl)"
proof -
  from User_create_Inr [OF assms] obtain u where u: "tbl' = tbl @ [u]" "User_build v = Some u"
    by blast
  from u(2) have v: "v = \<lparr>v_userId = Some (u_userId u), v_firstName = Some (u_firstName u),
      v_lastName = Some (u_lastName u), v_email = Some (u_email u),
      v_password = Some (u_password u), v_phone = u_phone u\<rparr>"
    by (cases v) (simp add: User_build_Some)
  from assms have "unique_violations tbl v = []"
    by (auto simp: User_create_def split: if_splits)
  with v have "unique_violations tbl \<lparr>v_userId = Some (u_userId u),
      v_firstName = Some (u_firstName u), v_lastName = Some (u_lastName u),
      v_email = Some (u_email u), v_password = Some (u_password u), v_phone = u_phone u\<rparr> = []"
    by simp
  then have "u_userId u \<notin> set (map u_userId tbl) \<and> u_email u \<notin> set (map u_email tbl)"
    by (simp add: unique_violations_full)
  with u(1) show ?thesis by blast
qed

lemma User_create_distinct:
  assumes "distinct (map u_userId tbl) \<and> distinct (map u_email tbl)"
  shows "distinct (map u_userId (case User_create tbl v of Inl err \<Rightarrow> tbl | Inr tbl' \<Rightarrow> tbl'))
     \<and> distinct (map u_email (case User_create tbl v of Inl err \<Rightarrow> tbl | Inr tbl' \<Rightarrow> tbl'))"
proof (cases "User_create tbl v")
  case (Inl err)
  with assms show ?thesis by simp
next
  case (Inr tbl')
  with assms User_create_fresh [OF Inr] show ?thesis by auto
qed

lemma User_creates_distinct:
  "distinct (map u_userId tbl) \<and> distinct (map u_email tbl) \<Longrightarrow>
   distinct (map u_userId (User_creates tbl vs)) \<and> distinct (map u_email (User_creates tbl vs))"
proof (induction vs arbitrary: tbl)
  case Nil
  then show ?case by simp
next
  case (Cons v vs)
  from Cons.IH [OF User_create_distinct [OF Cons.prems, of v]] show ?case by simp
qed

text \<open>
  C10. In the User model, phone is the only attribute permitted to be null: userId,
  firstName, lastName, email and password are declared \<^verbatim>\<open>allowNull: false\<close>.
  \<open>User.create\<close> rejects a null in any of the five, a row it stores holds the five
  values it was given, and a row without a phone is stored.
\<close>

theorem User_allowNull:
  "map col_name (filter col_allowNull User_attributes) = [''phone'']
   \<and> map col_name (filter (\<lambda>c. \<not> col_allowNull c) User_attributes)
       = [''userId'', ''firstName'', ''lastName'', ''email'', ''password'']
   \<and> (v_userId v = None \<or> v_firstName v = None \<or> v_lastName v = None
        \<or> v_email v = None \<or> v_password v = None \<longrightarrow>
       (\<exists>es. es \<noteq> [] \<and> User_create tbl v = Inl (SequelizeValidationError es)))
   \<and> (User_create tbl v = Inr tbl' \<longrightarrow>
       (\<exists>u. tbl' = tbl @ [u]
          \<and> v_userId v = Some (u_userId u) \<and> v_firstName v = Some (u_firstName u)
          \<and> v_lastName v = Some (u_lastName u) \<and> v_email v = Some (u_email u)
          \<and> v_password v = Some (u_password u) \<and> v_phone v = u_phone u))
   \<and> (i \<notin> set (map u_userId tbl) \<and> e \<notin> set (map u_email tbl) \<longrightarrow>
       User_create tbl \<lparr>v_userId = Some i, v_firstName = Some f, v_lastName = Some l,
                        v_email = Some e, v_password = Some p, v_phone = None\<rparr>
         = Inr (tbl @ [\<lparr>u_userId = i, u_firstName = f, u_lastName = l, u_email = e,
                        u_password = p, u_phone = None\<rparr>]))"
proof -
  have "map col_name (filter col_allowNull User_attributes) = [''phone'']"
    by (simp add: User_attributes_def)
  moreover have "map col_name (filter (\<lambda>c. \<not> col_allowNull c) User_attributes)
       = [''userId'', ''firstName'', ''lastName'', ''email'', ''password'']"
    by (simp add: User_attributes_def)
  moreover have "v_userId v = None \<or> v_firstName v = None \<or> v_lastName v = None
        \<or> v_email v = None \<or> v_password v = None \<longrightarrow>
       (\<exists>es. es \<noteq> [] \<and> User_create tbl v = Inl (SequelizeValidationError es))"
    using notNull_violations_Nil [of v] by (auto simp: User_create_def)
  moreover have "User_create tbl v = Inr tbl' \<longrightarrow>
       (\<exists>u. tbl' = tbl @ [u]
          \<and> v_userId v = Some (u_userId u) \<and> v_firstName v = Some (u_firstName u)
          \<and> v_lastName v = Some (u_lastName u) \<and> v_email v = Some (u_email u)
          \<and> v_password v = Some (u_password u) \<and> v_phone v = u_phone u)"
    using User_create_Inr [of tbl v tbl'] by (auto simp: User_build_Some)
  moreover have "i \<notin> set (map u_userId tbl) \<and> e \<notin> set (map u_email tbl) \<longrightarrow>
       User_create tbl \<lparr>v_userId = Some i, v_firstName = Some f, v_lastName = Some l,
                        v_email = Some e, v_password = Some p, v_phone = None\<rparr>
         = Inr (tbl @ [\<lparr>u_userId = i, u_firstName = f, u_lastName = l, u_email = e,
                        u_password = p, u_phone = None\<rparr>])"
    by (simp add: User_create_full)
  ultimately show ?thesis by blast
qed

theorem User_allowNull_witness:
  "(\<exists>es. es \<noteq> [] \<and>
      User_create [john_row]
        \<lparr>v_userId = Some ''Jane-Roe-2b'', v_firstName = None, v_lastName = Some ''Roe'',
         v_email = Some ''jane@example.com'', v_password = Some ''s2secret'', v_phone = None\<rparr>
      = Inl (SequelizeValidationError es))
   \<and> User_create [john_row]
        \<lparr>v_userId = Some ''Jane-Roe-2b'', v_firstName = Some ''Jane'', v_lastName = Some ''Roe'',
         v_email = Some ''jane@example.com'', v_password = Some ''s2secret'', v_phone = None\<rparr>
      = Inr [john_row, jane_row]"
proof -
  let ?v = "\<lparr>v_userId = Some ''Jane-Roe-2b'', v_firstName = None, v_lastName = Some ''Roe'',
         v_email = Some ''jane@example.com'', v_password = Some ''s2secret'', v_phone = None\<rparr>"
  have n: "v_userId ?v = None \<or> v_firstName ?v = None \<or> v_lastName ?v = None
        \<or> v_email ?v = None \<or> v_password ?v = None"
    by simp
  have u: "''Jane-Roe-2b'' \<notin> set (map u_userId [john_row])
      \<and> ''jane@example.com'' \<notin> set (map u_email [john_row])"
    by (simp add: john_row_def)
  have "\<exists>es. es \<noteq> [] \<and> User_create [john_row] ?v = Inl (SequelizeValidationError es)"
    using n User_allowNull [where v = ?v and tbl = "[john_row]"] by blast
  moreover have "User_create [john_row]
        \<lparr>v_userId = Some ''Jane-Roe-2b'', v_firstName = Some ''Jane'', v_lastName = Some ''Roe'',
         v_email = Some ''jane@example.com'', v_password = Some ''s2secret'', v_phone = None\<rparr>
      = Inr ([john_row] @ [\<lparr>u_userId = ''Jane-Roe-2b'', u_firstName = ''Jane'',
           u_lastName = ''Roe'', u_email = ''jane@example.com'', u_password = ''s2secret'',
           u_phone = None\<rparr>])"
    using u User_allowNull [where tbl = "[john_row]" and i = "''Jane-Roe-2b''"
        and e = "''jane@example.com''" and f = "''Jane''" and l = "''Roe''" and p = "''s2secret''"]
    by blast
  ultimately show ?thesis by (simp add: jane_row_def)
qed

section \<open>Properties of the token helper\<close>

lemma verifyToken_generateToken:
  "t < now + 3600 \<Longrightarrow>
   verifyToken L secret t (generateToken L secret now u) = Inr \<lparr>p_userId = u, p_exp = now + 3600\<rparr>"
  by (simp add: verifyToken_def generateToken_def jwt_verify_def jwt_sign_def one_hour_def Let_def)

text \<open>
  C2. For every user object with the fields userId and email, the token that
  \<open>generateToken\<close> produces at time \<open>now\<close> carries a payload whose inner userId
  and email are those of the user and whose expiry is one hour (3600 seconds) after
  \<open>now\<close>; \<open>verifyToken\<close>, at any time before that expiry, yields this payload.
\<close>

theorem generateToken_payload:
  "tu_userId (p_userId (jwt_decode (generateToken L secret now u))) = tu_userId u
   \<and> tu_email (p_userId (jwt_decode (generateToken L secret now u))) = tu_email u
   \<and> p_exp (jwt_decode (generateToken L secret now u)) = now + 3600
   \<and> (\<forall>t < now + 3600.
        verifyToken L secret t (generateToken L secret now u)
          = Inr (jwt_decode (generateToken L secret now u)))"
  by (simp add: verifyToken_def generateToken_def jwt_verify_def jwt_sign_def jwt_decode_def
      one_hour_def Let_def)

theorem generateToken_payload_witness:
  "verifyToken toy_lib ''k'' 1000
      (generateToken toy_lib ''k'' 1000 \<lparr>tu_userId = ''user123'', tu_email = ''user@example.com''\<rparr>)
    = Inr \<lparr>p_userId = \<lparr>tu_userId = ''user123'', tu_email = ''user@example.com''\<rparr>, p_exp = 4600\<rparr>"
proof -
  have "(1000::nat) < 1000 + 3600" by simp
  with generateToken_payload [of toy_lib "''k''" 1000
      "\<lparr>tu_userId = ''user123'', tu_email = ''user@example.com''\<rparr>"]
  have "verifyToken toy_lib ''k'' 1000
      (generateToken toy_lib ''k'' 1000 \<lparr>tu_userId = ''user123'', tu_email = ''user@example.com''\<rparr>)
    = Inr (jwt_decode (generateToken toy_lib ''k'' 1000
        \<lparr>tu_userId = ''user123'', tu_email = ''user@example.com''\<rparr>))"
    by blast
  then show ?thesis
    by (simp add: generateToken_def jwt_sign_def jwt_decode_def one_hour_def Let_def)
qed

section \<open>Properties of registration\<close>

lemma registerUser_missing:
  assumes "r_firstName b = None \<or> r_lastName b = None \<or> r_email b = None \<or> r_password b = None"
  shows "registerUser L secret E d b = (\<lparr>res_status = 422, res_body = Errors (validate b)\<rparr>, d)"
  using assms by (auto simp: registerUser_def split: option.splits)

lemma registerUser_present:
  assumes "r_firstName b = Some f" "r_lastName b = Some l" "r_email b = Some e"
    "r_password b = Some p"
  shows "registerUser L secret E d b =
    (if generateUniqueId (env_issued E) (f @ ''-'' @ l) (env_suffix E) \<in> set (map u_userId (users d))
        \<or> e \<in> set (map u_email (users d))
     then (\<lparr>res_status = 422,
            res_body = Errors (map unique_item (unique_violations (users d)
              \<lparr>v_userId = Some (generateUniqueId (env_issued E) (f @ ''-'' @ l) (env_suffix E)),
               v_firstName = Some f, v_lastName = Some l, v_email = Some e,
               v_password = Some (bcrypt_hash L (env_salt E) p), v_phone = r_phone b\<rparr>))\<rparr>, d)
     else (\<lparr>res_status = 201,
            res_body = Data \<lparr>d_userId = generateUniqueId (env_issued E) (f @ ''-'' @ l) (env_suffix E),
                             d_firstName = f, d_lastName = l, d_email = e, d_phone = r_phone b\<rparr>
                         (generateToken L secret (env_now E)
                            \<lparr>tu_userId = generateUniqueId (env_issued E) (f @ ''-'' @ l) (env_suffix E),
                             tu_email = e\<rparr>)\<rparr>,
           \<lparr>users = users d @ [\<lparr>u_userId = generateUniqueId (env_issued E) (f @ ''-'' @ l) (env_suffix E),
                                 u_firstName = f, u_lastName = l, u_email = e,
                                 u_password = bcrypt_hash L (env_salt E) p, u_phone = r_phone b\<rparr>],
            organisations = organisations d
              @ [\<lparr>o_orgId = (generateUniqueId (generateUniqueId (env_issued E) (f @ ''-'' @ l) (env_suffix E) # env_issued E)
                  (default_organisation_name f) (env_orgSuffix E)), o_name = default_organisation_name f\<rparr>],
            userOrganisations = userOrganisations d
              @ [\<lparr>m_userId = generateUniqueId (env_issued E) (f @ ''-'' @ l) (env_suffix E),
                  m_orgId = (generateUniqueId (generateUniqueId (env_issued E) (f @ ''-'' @ l) (env_suffix E) # env_issued E)
                  (default_organisation_name f) (env_orgSuffix E))\<rparr>]\<rparr>))"
  using assms by (simp add: registerUser_def User_create_full Let_def orm_error_items_def)

lemma registerUser_cases:
  "snd (registerUser L secret E d b) = d \<or>
   (\<exists>u oid. snd (registerUser L secret E d b) =
          \<lparr>users = users d @ [u],
           organisations = organisations d
             @ [\<lparr>o_orgId = oid, o_name = default_organisation_name (u_firstName u)\<rparr>],
           userOrganisations = userOrganisations d
             @ [\<lparr>m_userId = u_userId u, m_orgId = oid\<rparr>]\<rparr>
        \<and> u_userId u \<notin> set (map u_userId (users d))
        \<and> u_email u \<notin> set (map u_email (users d)))"
proof (cases "r_firstName b = None \<or> r_lastName b = None \<or> r_email b = None \<or> r_password b = None")
  case True
  then show ?thesis by (simp add: registerUser_missing)
next
  case False
  then obtain f l e p where
    "r_firstName b = Some f" "r_lastName b = Some l" "r_email b = Some e" "r_password b = Some p"
    by auto
  then show ?thesis
    by (simp add: registerUser_present)
qed

lemma run_snoc:
  "run L secret d (cs @ [c]) = snd (indexRouter L secret (run L secret d cs) c)"
  by (induction cs arbitrary: d) simp_all

lemma indexRouter_cases:
  "snd (indexRouter L secret d c) = d \<or>
   (\<exists>u oid. snd (indexRouter L secret d c) =
          \<lparr>users = users d @ [u],
           organisations = organisations d
             @ [\<lparr>o_orgId = oid, o_name = default_organisation_name (u_firstName u)\<rparr>],
           userOrganisations = userOrganisations d
             @ [\<lparr>m_userId = u_userId u, m_orgId = oid\<rparr>]\<rparr>
        \<and> u_userId u \<notin> set (map u_userId (users d))
        \<and> u_email u \<notin> set (map u_email (users d)))"
proof (cases c)
  case (Register E b)
  then show ?thesis using registerUser_cases [of L secret E d b] by auto
next
  case (Login E b)
  then show ?thesis by simp
qed

lemma run_two_users:
  "run toy_lib ''k'' empty_db [Register env1 john, Register env2 jane] = two_users_db"
  by (simp add: registerUser_def User_create_full Let_def empty_db_def env1_def env2_def
      john_def jane_def two_users_db_def john_row_def jane_row_def generateUniqueId_def
      toy_lib_def default_organisation_name_def)

lemma filter_required_error:
  "filter (\<lambda>x. e_field x = fld') (required_error v fld msg) =
     (if v = None \<and> fld = fld' then [\<lparr>e_field = fld, e_message = msg\<rparr>] else [])"
  by (simp add: required_error_def split: option.splits)

text \<open>
  C4. If any of the required fields firstName, lastName, email, password is missing,
  \<open>registerUser\<close> returns HTTP 422 with an errors list that holds one
  \<^verbatim>\<open>{field, message}\<close> object for each missing field and none for a field that
  is given, and the database is unchanged: no user is created.
\<close>

theorem registerUser_missing_fields:
  assumes "r_firstName b = None \<or> r_lastName b = None \<or> r_email b = None \<or> r_password b = None"
  shows "\<exists>es. registerUser L secret E d b = (\<lparr>res_status = 422, res_body = Errors es\<rparr>, d)
     \<and> es \<noteq> []
     \<and> filter (\<lambda>x. e_field x = ''firstName'') es =
         (if r_firstName b = None
          then [\<lparr>e_field = ''firstName'', e_message = ''First name is required''\<rparr>] else [])
     \<and> filter (\<lambda>x. e_field x = ''lastName'') es =
         (if r_lastName b = None
          then [\<lparr>e_field = ''lastName'', e_message = ''Last name is required''\<rparr>] else [])
     \<and> filter (\<lambda>x. e_field x = ''email'') es =
         (if r_email b = None
          then [\<lparr>e_field = ''email'', e_message = ''Email is required''\<rparr>] else [])
     \<and> filter (\<lambda>x. e_field x = ''password'') es =
         (if r_password b = None
          then [\<lparr>e_field = ''password'', e_message = ''Password is required''\<rparr>] else [])"
proof -
  have "validate b \<noteq> []"
    using assms by (auto simp: validate_def required_error_def)
  then show ?thesis
    by (simp add: registerUser_missing [OF assms] validate_def filter_required_error)
qed

theorem registerUser_missing_fields_witness:
  "registerUser toy_lib ''k'' env2 two_users_db (john\<lparr>r_lastName := None, r_email := None\<rparr>)
     = (\<lparr>res_status = 422,
         res_body = Errors [\<lparr>e_field = ''lastName'', e_message = ''Last name is required''\<rparr>,
                            \<lparr>e_field = ''email'', e_message = ''Email is required''\<rparr>]\<rparr>,
        two_users_db)"
proof -
  let ?b = "john\<lparr>r_lastName := None, r_email := None\<rparr>"
  have h: "r_firstName ?b = None \<or> r_lastName ?b = None \<or> r_email ?b = None \<or> r_password ?b = None"
    by simp
  from registerUser_missing_fields [OF h, of toy_lib "''k''" env2 two_users_db]
  obtain es where
    "registerUser toy_lib ''k'' env2 two_users_db ?b
       = (\<lparr>res_status = 422, res_body = Errors es\<rparr>, two_users_db)"
    by blast
  then show ?thesis
    by (simp add: registerUser_def john_def validate_def required_error_def)
qed

lemma unique_violations_items:
  "i \<in> set (map u_userId tbl) \<or> e \<in> set (map u_email tbl) \<Longrightarrow>
   map unique_item (unique_violations tbl \<lparr>v_userId = Some i, v_firstName = Some f,
      v_lastName = Some l, v_email = Some e, v_password = Some p, v_phone = ph\<rparr>) \<noteq> []"
  using unique_violations_full [of tbl i f l e p ph] by simp

text \<open>
  C6. If all required fields are given and the email, or the generated userId, is
  that of an existing User row, then \<open>User.create\<close> fails with a unique constraint
  error and \<open>registerUser\<close> returns HTTP 422 with a non-empty errors list, leaving
  the database unchanged.
\<close>

theorem registerUser_duplicate:
  assumes "r_firstName b = Some f" "r_lastName b = Some l" "r_email b = Some e"
    "r_password b = Some p"
    and "e \<in> set (map u_email (users d))
         \<or> generateUniqueId (env_issued E) (f @ ''-'' @ l) (env_suffix E) \<in> set (map u_userId (users d))"
  shows "\<exists>es. User_create (users d)
               \<lparr>v_userId = Some (generateUniqueId (env_issued E) (f @ ''-'' @ l) (env_suffix E)),
                v_firstName = Some f, v_lastName = Some l, v_email = Some e,
                v_password = Some (bcrypt_hash L (env_salt E) p), v_phone = r_phone b\<rparr>
             = Inl (SequelizeUniqueConstraintError es)
           \<and> es \<noteq> []
           \<and> registerUser L secret E d b = (\<lparr>res_status = 422, res_body = Errors es\<rparr>, d)"
  using assms(5) unique_violations_items [of "generateUniqueId (env_issued E) (f @ ''-'' @ l) (env_suffix E)"
      "users d" e f l "bcrypt_hash L (env_salt E) p" "r_phone b"]
  by (auto simp: registerUser_present [OF assms(1-4)] User_create_full)

theorem registerUser_duplicate_witness:
  "registerUser toy_lib ''k'' (env2\<lparr>env_suffix := ''-3c''\<rparr>) two_users_db (jane\<lparr>r_email := Some ''john@example.com''\<rparr>)
     = (\<lparr>res_status = 422,
         res_body = Errors [\<lparr>e_field = ''email'', e_message = ''email must be unique''\<rparr>]\<rparr>,
        two_users_db)
   \<and> registerUser toy_lib ''k'' env1 two_users_db (john\<lparr>r_email := Some ''other@example.com''\<rparr>)
     = (\<lparr>res_status = 422,
         res_body = Errors [\<lparr>e_field = ''userId'', e_message = ''userId must be unique''\<rparr>]\<rparr>,
        two_users_db)"
proof -
  let ?b = "jane\<lparr>r_email := Some ''john@example.com''\<rparr>"
  let ?c = "john\<lparr>r_email := Some ''other@example.com''\<rparr>"
  have b: "r_firstName ?b = Some ''Jane''" "r_lastName ?b = Some ''Roe''"
    "r_email ?b = Some ''john@example.com''" "r_password ?b = Some ''secret''"
    by (simp_all add: jane_def)
  have c: "r_firstName ?c = Some ''John''" "r_lastName ?c = Some ''Doe''"
    "r_email ?c = Some ''other@example.com''" "r_password ?c = Some ''password123''"
    by (simp_all add: john_def)
  have hb: "''john@example.com'' \<in> set (map u_email (users two_users_db))
      \<or> generateUniqueId (env_issued (env2\<lparr>env_suffix := ''-3c''\<rparr>)) (''Jane'' @ ''-'' @ ''Roe'') (env_suffix (env2\<lparr>env_suffix := ''-3c''\<rparr>))
          \<in> set (map u_userId (users two_users_db))"
    by (simp add: two_users_db_def john_row_def)
  have hc: "''other@example.com'' \<in> set (map u_email (users two_users_db))
      \<or> generateUniqueId (env_issued env1) (''John'' @ ''-'' @ ''Doe'') (env_suffix env1)
          \<in> set (map u_userId (users two_users_db))"
    by (simp add: two_users_db_def john_row_def generateUniqueId_def env1_def)
  from registerUser_duplicate [OF b hb, of toy_lib "''k''"]
  obtain es where es:
    "User_create (users two_users_db)
       \<lparr>v_userId = Some (generateUniqueId (env_issued (env2\<lparr>env_suffix := ''-3c''\<rparr>)) (''Jane'' @ ''-'' @ ''Roe'') (env_suffix (env2\<lparr>env_suffix := ''-3c''\<rparr>))),
        v_firstName = Some ''Jane'', v_lastName = Some ''Roe'',
        v_email = Some ''john@example.com'',
        v_password = Some (bcrypt_hash toy_lib (env_salt (env2\<lparr>env_suffix := ''-3c''\<rparr>)) ''secret''), v_phone = r_phone ?b\<rparr>
      = Inl (SequelizeUniqueConstraintError es)"
    "registerUser toy_lib ''k'' (env2\<lparr>env_suffix := ''-3c''\<rparr>) two_users_db ?b
      = (\<lparr>res_status = 422, res_body = Errors es\<rparr>, two_users_db)"
    by blast
  from registerUser_duplicate [OF c hc, of toy_lib "''k''"]
  obtain es' where es':
    "User_create (users two_users_db)
       \<lparr>v_userId = Some (generateUniqueId (env_issued env1) (''John'' @ ''-'' @ ''Doe'') (env_suffix env1)),
        v_firstName = Some ''John'', v_lastName = Some ''Doe'',
        v_email = Some ''other@example.com'',
        v_password = Some (bcrypt_hash toy_lib (env_salt env1) ''password123''),
        v_phone = r_phone ?c\<rparr>
      = Inl (SequelizeUniqueConstraintError es')"
    "registerUser toy_lib ''k'' env1 two_users_db ?c
      = (\<lparr>res_status = 422, res_body = Errors es'\<rparr>, two_users_db)"
    by blast
  have "es = [\<lparr>e_field = ''email'', e_message = ''email must be unique''\<rparr>]"
    using es(1)
    by (simp add: User_create_full two_users_db_def john_row_def jane_row_def
        unique_violations_def User_attributes_def user_value_def user_column_def unique_item_def
        generateUniqueId_def env2_def)
  moreover have "es' = [\<lparr>e_field = ''userId'', e_message = ''userId must be unique''\<rparr>]"
    using es'(1)
    by (simp add: User_create_full two_users_db_def john_row_def jane_row_def
        unique_violations_def User_attributes_def user_value_def user_column_def unique_item_def
        generateUniqueId_def env1_def)
  ultimately show ?thesis using es(2) es'(2) by simp
qed

section \<open>Properties of login\<close>

lemma User_findOne_email_None:
  "User_findOne_email tbl e = None \<longleftrightarrow> e \<notin> set (map u_email tbl)"
  by (auto simp: User_findOne_email_def find_None_iff)

lemma User_findOne_email_Some:
  "User_findOne_email tbl e = Some u \<Longrightarrow> u \<in> set tbl \<and> u_email u = e"
  by (auto simp: User_findOne_email_def find_Some_iff)

text \<open>
  C5. If no User row has the given email, or the given password does not match the
  stored hash of the row found, \<open>loginUser\<close> returns HTTP 401; if a row has the
  email and the password matches, it returns HTTP 200 with the data of that user and a
  signed access token.
\<close>

theorem loginUser_outcome:
  "(l_email b \<notin> set (map u_email (users d)) \<longrightarrow>
      res_status (loginUser L secret E d b) = 401)
   \<and> (\<forall>u. User_findOne_email (users d) (l_email b) = Some u
          \<and> \<not> bcrypt_compare L (l_password b) (u_password u) \<longrightarrow>
        res_status (loginUser L secret E d b) = 401)
   \<and> (\<forall>u. User_findOne_email (users d) (l_email b) = Some u
          \<and> bcrypt_compare L (l_password b) (u_password u) \<longrightarrow>
        u \<in> set (users d) \<and> u_email u = l_email b
        \<and> loginUser L secret E d b =
            \<lparr>res_status = 200,
             res_body = Data (user_data_of u)
               (generateToken L secret (env_now E)
                  \<lparr>tu_userId = u_userId u, tu_email = u_email u\<rparr>)\<rparr>
        \<and> verifyToken L secret (env_now E)
            (generateToken L secret (env_now E) \<lparr>tu_userId = u_userId u, tu_email = u_email u\<rparr>)
            = Inr \<lparr>p_userId = \<lparr>tu_userId = u_userId u, tu_email = u_email u\<rparr>,
                   p_exp = env_now E + 3600\<rparr>)
   \<and> (l_email b \<in> set (map u_email (users d)) \<longrightarrow>
        (\<exists>u. User_findOne_email (users d) (l_email b) = Some u))"
proof -
  have "l_email b \<notin> set (map u_email (users d)) \<longrightarrow>
      res_status (loginUser L secret E d b) = 401"
    using User_findOne_email_None [of "users d" "l_email b"]
    by (auto simp: loginUser_def)
  moreover have "l_email b \<in> set (map u_email (users d)) \<longrightarrow>
        (\<exists>u. User_findOne_email (users d) (l_email b) = Some u)"
    using User_findOne_email_None [of "users d" "l_email b"] by auto
  moreover have "\<forall>u. User_findOne_email (users d) (l_email b) = Some u
          \<and> \<not> bcrypt_compare L (l_password b) (u_password u) \<longrightarrow>
        res_status (loginUser L secret E d b) = 401"
    by (simp add: loginUser_def)
  moreover have "\<forall>u. User_findOne_email (users d) (l_email b) = Some u
          \<and> bcrypt_compare L (l_password b) (u_password u) \<longrightarrow>
        u \<in> set (users d) \<and> u_email u = l_email b
        \<and> loginUser L secret E d b =
            \<lparr>res_status = 200,
             res_body = Data (user_data_of u)
               (generateToken L secret (env_now E)
                  \<lparr>tu_userId = u_userId u, tu_email = u_email u\<rparr>)\<rparr>
        \<and> verifyToken L secret (env_now E)
            (generateToken L secret (env_now E) \<lparr>tu_userId = u_userId u, tu_email = u_email u\<rparr>)
            = Inr \<lparr>p_userId = \<lparr>tu_userId = u_userId u, tu_email = u_email u\<rparr>,
                   p_exp = env_now E + 3600\<rparr>"
    using User_findOne_email_Some [of "users d" "l_email b"]
    by (simp add: loginUser_def verifyToken_generateToken)
  ultimately show ?thesis by blast
qed

theorem loginUser_outcome_witness:
  "res_status (loginUser toy_lib ''k'' env2 two_users_db
      \<lparr>l_email = ''nobody@example.com'', l_password = ''password123''\<rparr>) = 401
   \<and> res_status (loginUser toy_lib ''k'' env2 two_users_db
      \<lparr>l_email = ''john@example.com'', l_password = ''wrongpassword''\<rparr>) = 401
   \<and> loginUser toy_lib ''k'' env2 two_users_db
      \<lparr>l_email = ''john@example.com'', l_password = ''password123''\<rparr>
     = \<lparr>res_status = 200,
        res_body = Data (user_data_of john_row)
          (generateToken toy_lib ''k'' 2000
             \<lparr>tu_userId = ''John-Doe-1a'', tu_email = ''john@example.com''\<rparr>)\<rparr>"
proof -
  let ?a = "\<lparr>l_email = ''nobody@example.com'', l_password = ''password123''\<rparr>"
  let ?b = "\<lparr>l_email = ''john@example.com'', l_password = ''wrongpassword''\<rparr>"
  let ?c = "\<lparr>l_email = ''john@example.com'', l_password = ''password123''\<rparr>"
  have f: "User_findOne_email (users two_users_db) ''john@example.com'' = Some john_row"
    by (simp add: User_findOne_email_def two_users_db_def john_row_def)
  have a: "l_email ?a \<notin> set (map u_email (users two_users_db))"
    by (simp add: two_users_db_def john_row_def jane_row_def)
  have b: "User_findOne_email (users two_users_db) (l_email ?b) = Some john_row
      \<and> \<not> bcrypt_compare toy_lib (l_password ?b) (u_password john_row)"
    using f by (simp add: toy_lib_def john_row_def)
  have c: "User_findOne_email (users two_users_db) (l_email ?c) = Some john_row
      \<and> bcrypt_compare toy_lib (l_password ?c) (u_password john_row)"
    using f by (simp add: toy_lib_def john_row_def)
  have "res_status (loginUser toy_lib ''k'' env2 two_users_db ?a) = 401"
    using a loginUser_outcome [of ?a two_users_db toy_lib "''k''" env2] by blast
  moreover have "res_status (loginUser toy_lib ''k'' env2 two_users_db ?b) = 401"
    using b loginUser_outcome [of ?b two_users_db toy_lib "''k''" env2] by blast
  moreover have "loginUser toy_lib ''k'' env2 two_users_db ?c
     = \<lparr>res_status = 200,
        res_body = Data (user_data_of john_row)
          (generateToken toy_lib ''k'' (env_now env2)
             \<lparr>tu_userId = u_userId john_row, tu_email = u_email john_row\<rparr>)\<rparr>"
    using c loginUser_outcome [of ?c two_users_db toy_lib "''k''" env2] by blast
  ultimately show ?thesis
    by (simp add: env2_def john_row_def)
qed

section \<open>Invariants of the reachable states\<close>

lemma run_distinct:
  "distinct (map u_userId (users (run L secret empty_db cs)))
   \<and> distinct (map u_email (users (run L secret empty_db cs)))"
proof (induction cs rule: rev_induct)
  case Nil
  then show ?case by (simp add: empty_db_def)
next
  case (snoc c cs)
  then show ?case
    using indexRouter_cases [of L secret "run L secret empty_db cs" c]
    by (auto simp: run_snoc)
qed

text \<open>
  C8. In every reachable database state the userIds of the User rows are pairwise
  distinct, and so are their emails: in the table that any sequence of
  \<open>User.create\<close> calls leaves, and in the database that any sequence of requests
  leaves.
\<close>

theorem users_unique:
  "distinct (map u_userId (User_creates [] vs))
   \<and> distinct (map u_email (User_creates [] vs))
   \<and> distinct (map u_userId (users (run L secret empty_db cs)))
   \<and> distinct (map u_email (users (run L secret empty_db cs)))"
  using User_creates_distinct [of "[]" vs] run_distinct [of L secret cs] by simp

theorem users_unique_witness:
  "users (run toy_lib ''k'' empty_db [Register env1 john, Register env2 jane])
     = [john_row, jane_row]
   \<and> distinct (map u_userId [john_row, jane_row])
   \<and> distinct (map u_email [john_row, jane_row])"
  using users_unique [where L = toy_lib and secret = "''k''"
      and cs = "[Register env1 john, Register env2 jane]"]
  unfolding run_two_users by (simp add: two_users_db_def)








section \<open>Properties of the running backend\<close>




















end
